theory Spec2Isabelle
  imports Main "HOL-Library.Sublist"
begin

section \<open>Errors\<close>

text \<open>
  Go's \<open>error\<close> values. A nil error is \<open>None\<close> of \<open>error option\<close>.
  \<open>ErrClusterEndpointNoAccess\<close> and \<open>ErrClusterEndpointPrivateOnly\<close> are the two
  sentinel errors of the api package; \<open>NotFoundError\<close> is an error for which
  \<open>apierrs.IsNotFound\<close> holds; \<open>UnexpectedImageFormat image name\<close> is
  \<open>fmt.Errorf("unexpected image format %q for %q", image, name)\<close>;
  \<open>Wrapped e name\<close> is \<open>errors.Wrapf(e, "getting %q", name)\<close>; every other error
  of a collaborator is a \<open>CollaboratorError\<close>.
\<close>

datatype error =
    ErrClusterEndpointNoAccess
  | ErrClusterEndpointPrivateOnly
  | NotFoundError string
  | CollaboratorError string
  | UnexpectedImageFormat string string
  | Wrapped error string

section \<open>Endpoint access: update\_cluster\_endpoint\_access.go\<close>

subsection \<open>Data\<close>

text \<open>
  A pflag flag, of which the code reads only \<open>Changed\<close>; the flag set is the lookup
  \<open>fs.Lookup\<close> from flag names, nil being \<open>None\<close>. Of \<open>cmdutils.Cmd\<close> the code
  reads the plan switch and that flag set.
\<close>

record flag =
  Changed :: bool

record cmd =
  Plan :: bool
  FlagSet :: "string \<rightharpoonup> flag"

text \<open>
  What the collaborators of one run answer: the config loader, \<open>cmd.NewCtl\<close>,
  \<open>ctl.CheckAuth\<close>, \<open>ctl.CanUpdate\<close> (a verdict and an error),
  \<open>ctl.GetCurrentClusterConfigForEndpoints\<close> (an error, or else the live state) and
  \<open>ctl.UpdateClusterConfigForEndpoints\<close> (an error, or else the live state becomes
  the requested one).
\<close>

record provider =
  Load_result :: "error option"
  NewCtl_result :: "error option"
  CheckAuth_result :: "error option"
  CanUpdate_result :: "bool \<times> error option"
  GetCurrent_error :: "error option"
  Update_error :: "error option"

text \<open>
  The trace of one run: the log lines, the validation of the configuration and the call
  of the mutating API, in the order in which the code reaches them. Access states are
  pairs \<open>(privateAccess, publicAccess)\<close>.
\<close>

datatype ep_event =
    InfoUsingRegion
  | InfoCurrentAccess bool bool
  | SuccessUpToDate
  | LogIntendedAction bool bool bool
  | ValidateCalled bool bool
  | LogWarning error
  | UpdateCalled bool bool
  | LogCompletedAction bool bool bool
  | LogPlanModeWarning bool

subsection \<open>The validator\<close>

text \<open>
  Modelled from the spec: \<open>ValidateClusterEndpointConfig\<close> of the api package, which
  is not among the source files. Section 4.1: it fails with the no-access error when both
  \<open>privateAccess\<close> and \<open>publicAccess\<close> are false, yields the private-only warning
  when \<open>privateAccess=true, publicAccess=false\<close>, and otherwise succeeds with no
  warning. The caller (line 113) shows that the warning is returned as the error value
  \<open>api.ErrClusterEndpointPrivateOnly\<close>.
\<close>

definition ValidateClusterEndpointConfig :: "bool \<Rightarrow> bool \<Rightarrow> error option" where
  "ValidateClusterEndpointConfig privateAccess publicAccess =
     (if \<not> privateAccess \<and> \<not> publicAccess then Some ErrClusterEndpointNoAccess
      else if privateAccess \<and> \<not> publicAccess then Some ErrClusterEndpointPrivateOnly
      else None)"

subsection \<open>The reconciler\<close>

text \<open>Lines 43-54: a flag counts as set when it exists and its \<open>Changed\<close> is true.\<close>

definition accessFlagsSet :: "cmd \<Rightarrow> bool \<times> bool" where
  "accessFlagsSet c =
     ((case FlagSet c ''private-access'' of None \<Rightarrow> False | Some priv \<Rightarrow> Changed priv),
      (case FlagSet c ''public-access'' of None \<Rightarrow> False | Some pub \<Rightarrow> Changed pub))"

text \<open>
  Lines 86-92: the arguments \<open>newPrivate\<close> and \<open>newPublic\<close> are overwritten with the
  current values where the flag was not set.
\<close>

definition resolveDesired :: "cmd \<Rightarrow> bool \<Rightarrow> bool \<Rightarrow> bool \<times> bool \<Rightarrow> bool \<times> bool" where
  "resolveDesired c newPrivate newPublic cur =
     (let (privateSet, publicSet) = accessFlagsSet c
      in (if \<not> privateSet then fst cur else newPrivate,
          if \<not> publicSet then snd cur else newPublic))"

text \<open>
  Lines 56-132. The function takes the live state of the cluster and returns the error
  (nil is \<open>None\<close>), the live state after the run and the trace of the run.
\<close>

definition doUpdateClusterEndpoints ::
  "cmd \<Rightarrow> provider \<Rightarrow> bool \<Rightarrow> bool \<Rightarrow> bool \<times> bool
     \<Rightarrow> error option \<times> (bool \<times> bool) \<times> ep_event list" where
  "doUpdateClusterEndpoints c ctl newPrivate newPublic remote =
     (case Load_result ctl of Some err \<Rightarrow> (Some err, remote, [])
      | None \<Rightarrow>
     (case NewCtl_result ctl of Some err \<Rightarrow> (Some err, remote, [])
      | None \<Rightarrow>
     (let tr = [InfoUsingRegion] in
     (case CheckAuth_result ctl of Some err \<Rightarrow> (Some err, remote, tr)
      | None \<Rightarrow>
     (if \<not> fst (CanUpdate_result ctl) then (snd (CanUpdate_result ctl), remote, tr)
      else
     (case GetCurrent_error ctl of Some err \<Rightarrow> (Some err, remote, tr)
      | None \<Rightarrow>
     (let (curPrivate, curPublic) = remote;
          tr = tr @ [InfoCurrentAccess curPrivate curPublic];
          (newPrivate, newPublic) = resolveDesired c newPrivate newPublic (curPrivate, curPublic)
      in
        if newPrivate = curPrivate \<and> newPublic = curPublic
        then (None, remote, tr @ [SuccessUpToDate])
        else
          (let tr = tr @ [LogIntendedAction (Plan c) newPrivate newPublic,
                          ValidateCalled newPrivate newPublic];
               verr = ValidateClusterEndpointConfig newPrivate newPublic
           in
             if verr \<noteq> None \<and> verr \<noteq> Some ErrClusterEndpointPrivateOnly
             then (verr, remote, tr)
             else
               (let tr = (case verr of None \<Rightarrow> tr | Some err \<Rightarrow> tr @ [LogWarning err])
                in
                  if \<not> Plan c then
                    (let tr = tr @ [UpdateCalled newPrivate newPublic] in
                     (case Update_error ctl of
                        Some err \<Rightarrow> (Some err, remote, tr)
                      | None \<Rightarrow>
                          (None, (newPrivate, newPublic),
                           tr @ [LogCompletedAction False newPrivate newPublic,
                                 LogPlanModeWarning (Plan c)])))
                  else (None, remote, tr @ [LogPlanModeWarning (Plan c)]))))))))))"

text \<open>
  The run got as far as reading the live state: the loader, \<open>NewCtl\<close>, \<open>CheckAuth\<close>,
  \<open>CanUpdate\<close> and \<open>GetCurrentClusterConfigForEndpoints\<close> all succeeded.
\<close>

definition current_state_loaded :: "provider \<Rightarrow> bool" where
  "current_state_loaded ctl =
     (Load_result ctl = None \<and> NewCtl_result ctl = None \<and> CheckAuth_result ctl = None \<and>
      fst (CanUpdate_result ctl) \<and> GetCurrent_error ctl = None)"

text \<open>The calls of the mutating API in a trace, and the changes a trace announces.\<close>

fun update_calls :: "ep_event list \<Rightarrow> (bool \<times> bool) list" where
  "update_calls [] = []"
| "update_calls (UpdateCalled p q # es) = (p, q) # update_calls es"
| "update_calls (e # es) = update_calls es"

fun intended_changes :: "ep_event list \<Rightarrow> (bool \<times> bool) list" where
  "intended_changes [] = []"
| "intended_changes (LogIntendedAction pl p q # es) = (p, q) # intended_changes es"
| "intended_changes (e # es) = intended_changes es"

section \<open>The aws-node add-on\<close>

subsection \<open>Strings\<close>

text \<open>
  \<open>strings.Split(s, sep)\<close> for a separator of one byte, the only use the code makes of
  it (\<open>":"\<close>): the pieces between the occurrences of the separator, one more than
  there are occurrences, so the empty string gives one empty piece.
\<close>

fun strings_Split :: "string \<Rightarrow> char \<Rightarrow> string list" where
  "strings_Split [] sep = [[]]"
| "strings_Split (c # s) sep =
     (if c = sep then [] # strings_Split s sep
      else (case strings_Split s sep of [] \<Rightarrow> [[c]] | p # ps \<Rightarrow> (c # p) # ps))"

text \<open>\<open>strings.HasSuffix\<close>: \<open>len(s) >= len(suffix) && s[len(s)-len(suffix):] == suffix\<close>.\<close>

definition strings_HasSuffix :: "string \<Rightarrow> string \<Rightarrow> bool" where
  "strings_HasSuffix s suff =
     (length s \<ge> length suff \<and> drop (length s - length suff) s = suff)"

text \<open>Lines 17-23: the constants; the format \<open>"%s.dkr.ecr."\<close> is applied to one string.\<close>

definition AWSNode :: string where
  "AWSNode = ''aws-node''"

definition awsNodeImagePrefixPTN :: "string \<Rightarrow> string" where
  "awsNodeImagePrefixPTN account = account @ ''.dkr.ecr.''"

definition awsNodeImageSuffix :: string where
  "awsNodeImageSuffix = ''.amazonaws.com/amazon-k8s-cni''"

subsection \<open>Data\<close>

text \<open>
  A raw resource as the code uses it: the kind of its \<open>GVK\<close> and the decoded object
  \<open>Info.Object\<close>, which is an apps/v1 DaemonSet with the containers of its pod
  template, or an object of another type.
\<close>

record container =
  Image :: string

datatype runtime_object =
    AppsV1DaemonSet "container list"
  | OtherObject

record resource =
  Kind :: string
  Object :: runtime_object

text \<open>
  The collaborators: the typed get of the DaemonSet \<open>aws-node\<close> in the system namespace
  (its error, nil when the object is there), \<open>LoadAsset(AWSNode, "yaml")\<close>,
  \<open>rawClient.NewRawResource\<close>, \<open>resource.CreateOrReplace\<close>, \<open>resource.LogAction\<close>,
  and \<open>api.EKSResourceAccountID\<close>, the account of a region, which is not among the
  source files and is a parameter here.
\<close>

record 'raw addon_env =
  Get_error :: "error option"
  LoadAsset :: "error + 'raw list"
  NewRawResource :: "'raw \<Rightarrow> error + resource"
  CreateOrReplace :: "resource \<Rightarrow> bool \<Rightarrow> error + string"
  LogAction :: "resource \<Rightarrow> bool \<Rightarrow> string \<Rightarrow> string"
  EKSResourceAccountID :: "string \<Rightarrow> string"

definition IsNotFound :: "error \<Rightarrow> bool" where
  "IsNotFound err = (case err of NotFoundError m \<Rightarrow> True | _ \<Rightarrow> False)"

text \<open>The trace of one run: the calls of the collaborators and the log lines.\<close>

datatype 'raw addon_event =
    GetDaemonSetCalled string
  | WarningNotFound string
  | LoadAssetCalled string
  | NewRawResourceCalled 'raw
  | CreateOrReplaceCalled resource bool
  | LogInfo string
  | CriticalNotUpToDate string
  | InfoNowUpToDate string

text \<open>
  What a run ends with: the pair \<open>(bool, error)\<close> that the function returns, or a
  run-time panic (an index out of range, a failed type assertion).
\<close>

datatype panic = IndexOutOfRange | TypeAssertionFailed

datatype outcome = Return bool "error option" | Panic panic

subsection \<open>The reconciler\<close>

text \<open>
  Lines 48-57, the branch for the kind \<open>DaemonSet\<close>: the type assertion, the first
  container, the split of its image at \<open>":"\<close> and the rewrite in place. The result is
  the resource after the assignment, or the way the function ends.
\<close>

definition rewriteImage :: "'raw addon_env \<Rightarrow> string \<Rightarrow> resource \<Rightarrow> outcome + resource" where
  "rewriteImage env region res =
     (case Object res of
        OtherObject \<Rightarrow> Inl (Panic TypeAssertionFailed)
      | AppsV1DaemonSet containers \<Rightarrow>
          (case containers of
             [] \<Rightarrow> Inl (Panic IndexOutOfRange)
           | c0 # cs \<Rightarrow>
               (let image = Image c0;
                    imageParts = strings_Split image CHR '':''
                in
                  if length imageParts \<noteq> 2
                  then Inl (Return False (Some (UnexpectedImageFormat image AWSNode)))
                  else
                    (let awsNodeImagePrefix = awsNodeImagePrefixPTN (EKSResourceAccountID env region)
                     in
                       if strings_HasSuffix (imageParts ! 0) awsNodeImageSuffix
                       then Inr (res\<lparr>Object := AppsV1DaemonSet
                              (c0\<lparr>Image := awsNodeImagePrefix @ region @ awsNodeImageSuffix
                                              @ '':'' @ imageParts ! 1\<rparr> # cs)\<rparr>)
                       else Inr res))))"

text \<open>
  Lines 43-71, the body of the loop for one item: \<open>None\<close> when the loop goes on to the
  next item, \<open>Some\<close> of the outcome when the function ends there.
\<close>

definition UpdateAWSNode_item ::
  "'raw addon_env \<Rightarrow> string \<Rightarrow> bool \<Rightarrow> 'raw \<Rightarrow> 'raw addon_event list
     \<Rightarrow> outcome option \<times> 'raw addon_event list" where
  "UpdateAWSNode_item env region plan rawObj tr0 =
     (let tr = tr0 @ [NewRawResourceCalled rawObj] in
      (case NewRawResource env rawObj of
         Inl err \<Rightarrow> (Some (Return False (Some err)), tr)
       | Inr res0 \<Rightarrow>
           (case (if Kind res0 = ''DaemonSet'' then rewriteImage env region res0 else Inr res0) of
              Inl out \<Rightarrow> (Some out, tr)
            | Inr res \<Rightarrow>
                if Kind res = ''CustomResourceDefinition'' \<and> plan
                then (None, tr @ [LogInfo (LogAction env res plan ''replaced'')])
                else
                  (let tr = tr @ [CreateOrReplaceCalled res plan] in
                   (case CreateOrReplace env res plan of
                      Inl err \<Rightarrow> (Some (Return False (Some err)), tr)
                    | Inr status \<Rightarrow> (None, tr @ [LogInfo status]))))))"

text \<open>Line 42, the loop over \<open>list.Items\<close> in their order.\<close>

fun UpdateAWSNode_items ::
  "'raw addon_env \<Rightarrow> string \<Rightarrow> bool \<Rightarrow> 'raw list \<Rightarrow> 'raw addon_event list
     \<Rightarrow> outcome option \<times> 'raw addon_event list" where
  "UpdateAWSNode_items env region plan [] tr = (None, tr)"
| "UpdateAWSNode_items env region plan (rawObj # rest) tr =
     (case UpdateAWSNode_item env region plan rawObj tr of
        (Some out, tr') \<Rightarrow> (Some out, tr')
      | (None, tr') \<Rightarrow> UpdateAWSNode_items env region plan rest tr')"

text \<open>Lines 26-81.\<close>

definition UpdateAWSNode ::
  "'raw addon_env \<Rightarrow> string \<Rightarrow> bool \<Rightarrow> outcome \<times> 'raw addon_event list" where
  "UpdateAWSNode env region plan =
     (let tr = [GetDaemonSetCalled AWSNode] in
      (case Get_error env of
         Some err \<Rightarrow>
           if IsNotFound err then (Return False None, tr @ [WarningNotFound AWSNode])
           else (Return False (Some (Wrapped err AWSNode)), tr)
       | None \<Rightarrow>
           (let tr = tr @ [LoadAssetCalled AWSNode] in
            (case LoadAsset env of
               Inl err \<Rightarrow> (Return False (Some err), tr)
             | Inr items \<Rightarrow>
                 (case UpdateAWSNode_items env region plan items tr of
                    (Some out, tr') \<Rightarrow> (out, tr')
                  | (None, tr') \<Rightarrow>
                      if plan then (Return True None, tr' @ [CriticalNotUpToDate AWSNode])
                      else (Return False None, tr' @ [InfoNowUpToDate AWSNode]))))))"

text \<open>The calls of create-or-replace in a trace, and whether the manifest was loaded.\<close>

fun apply_calls :: "'raw addon_event list \<Rightarrow> (resource \<times> bool) list" where
  "apply_calls [] = []"
| "apply_calls (CreateOrReplaceCalled r pl # es) = (r, pl) # apply_calls es"
| "apply_calls (e # es) = apply_calls es"

fun manifest_loads :: "'raw addon_event list \<Rightarrow> nat" where
  "manifest_loads [] = 0"
| "manifest_loads (LoadAssetCalled n # es) = Suc (manifest_loads es)"
| "manifest_loads (e # es) = manifest_loads es"

section \<open>Concrete runs\<close>

text \<open>
  Collaborators that all succeed; the flag set as \<open>updateClusterEndpointsCmd\<close>
  registers it (lines 35-39), with \<open>Changed\<close> telling which flags the command line
  gave; and a cluster client whose raw objects are the resources themselves, where
  create-or-replace succeeds, with items of the kinds of the \<open>aws-node\<close> manifest.
\<close>

definition example_ctl :: provider where
  "example_ctl =
     \<lparr>Load_result = None, NewCtl_result = None, CheckAuth_result = None,
      CanUpdate_result = (True, None), GetCurrent_error = None, Update_error = None\<rparr>"

definition example_cmd :: "bool \<Rightarrow> bool \<Rightarrow> bool \<Rightarrow> cmd" where
  "example_cmd plan privateGiven publicGiven =
     \<lparr>Plan = plan,
      FlagSet = [''private-access'' \<mapsto> \<lparr>Changed = privateGiven\<rparr>,
                 ''public-access'' \<mapsto> \<lparr>Changed = publicGiven\<rparr>]\<rparr>"

definition example_env :: "error option \<Rightarrow> resource list \<Rightarrow> resource addon_env" where
  "example_env get_error items =
     \<lparr>Get_error = get_error, LoadAsset = Inr items, NewRawResource = Inr,
      CreateOrReplace = (\<lambda>r plan. Inr (if plan then ''would replace'' else ''replaced'')),
      LogAction = (\<lambda>r plan verb. verb),
      EKSResourceAccountID = (\<lambda>region. ''602401143452'')\<rparr>"

definition example_daemonset :: "string list \<Rightarrow> resource" where
  "example_daemonset images =
     \<lparr>Kind = ''DaemonSet'', Object = AppsV1DaemonSet (map (\<lambda>i. \<lparr>Image = i\<rparr>) images)\<rparr>"

definition example_crd :: resource where
  "example_crd = \<lparr>Kind = ''CustomResourceDefinition'', Object = OtherObject\<rparr>"

definition example_clusterrole :: resource where
  "example_clusterrole = \<lparr>Kind = ''ClusterRole'', Object = OtherObject\<rparr>"

section \<open>Properties of the endpoint reconciler\<close>

lemmas ep_defs = doUpdateClusterEndpoints_def current_state_loaded_def
  ValidateClusterEndpointConfig_def

lemmas example_ep_defs = example_ctl_def example_cmd_def current_state_loaded_def
  resolveDesired_def accessFlagsSet_def

text \<open>
  C1. Whatever the current state and the plan switch: when the resolved desired state
  differs from the current one and has both \<open>privateAccess\<close> and \<open>publicAccess\<close>
  false, the run returns the no-access validation error, the remote state is what it
  was, and the trace, which ends at the validation, has no call of the mutating API.
\<close>

theorem C1_no_access_rejected_before_mutation:
  assumes "current_state_loaded ctl"
    and "resolveDesired c newPrivate newPublic remote = (False, False)"
    and "remote \<noteq> (False, False)"
  shows "doUpdateClusterEndpoints c ctl newPrivate newPublic remote =
           (Some ErrClusterEndpointNoAccess, remote,
            [InfoUsingRegion, InfoCurrentAccess (fst remote) (snd remote),
             LogIntendedAction (Plan c) False False, ValidateCalled False False])
         \<and> update_calls (snd (snd (doUpdateClusterEndpoints c ctl newPrivate newPublic remote))) = []"
  using assms by (cases remote) (auto simp: ep_defs)

theorem C1_witness:
  "current_state_loaded example_ctl
   \<and> resolveDesired (example_cmd False True True) False False (True, False) = (False, False)
   \<and> doUpdateClusterEndpoints (example_cmd False True True) example_ctl False False (True, False) =
       (Some ErrClusterEndpointNoAccess, (True, False),
        [InfoUsingRegion, InfoCurrentAccess True False, LogIntendedAction False False False,
         ValidateCalled False False])"
proof -
  have h1: "current_state_loaded example_ctl" by (simp add: example_ep_defs)
  have h2: "resolveDesired (example_cmd False True True) False False (True, False) = (False, False)"
    by (simp add: example_ep_defs)
  have h3: "(True, False) \<noteq> (False, False)" by simp
  show ?thesis
    using h1 h2 C1_no_access_rejected_before_mutation [OF h1 h2 h3]
    by (simp add: example_cmd_def)
qed

text \<open>
  C3. Whatever the current state and the plan switch: when the resolved desired state is
  the current state, the run returns no error and reports that the access is already up
  to date; its trace is the two information lines and that report, so nothing is
  validated, no change is announced and the mutating API is not called, and the remote
  state is what it was. The Go function returns an error only: the verdict
  \<open>changed=false\<close> is this report.
\<close>

theorem C3_up_to_date_without_validation_or_mutation:
  assumes "current_state_loaded ctl"
    and "resolveDesired c newPrivate newPublic remote = remote"
  shows "doUpdateClusterEndpoints c ctl newPrivate newPublic remote =
           (None, remote,
            [InfoUsingRegion, InfoCurrentAccess (fst remote) (snd remote), SuccessUpToDate])"
  using assms by (cases remote) (auto simp: ep_defs)

theorem C3_witness:
  "current_state_loaded example_ctl
   \<and> resolveDesired (example_cmd False False False) False False (False, True) = (False, True)
   \<and> doUpdateClusterEndpoints (example_cmd False False False) example_ctl False False (False, True) =
       (None, (False, True),
        [InfoUsingRegion, InfoCurrentAccess False True, SuccessUpToDate])"
proof -
  have h1: "current_state_loaded example_ctl" by (simp add: example_ep_defs)
  have h2: "resolveDesired (example_cmd False False False) False False (False, True) = (False, True)"
    by (simp add: example_ep_defs)
  show ?thesis
    using h1 h2 C3_up_to_date_without_validation_or_mutation [OF h1 h2] by simp
qed

text \<open>
  C4. In plan mode, when the resolved desired state \<open>(p, q)\<close> differs from the current
  one and the validator does not answer with the no-access error, the run announces the
  intended change to \<open>(p, q)\<close>, returns no error, makes no call of the mutating API
  and leaves the remote state as it was. The Go function returns an error only: the
  change is reported by the announcement and the plan-mode warning.
\<close>

theorem C4_plan_mode_describes_and_does_not_mutate:
  assumes "current_state_loaded ctl"
    and "resolveDesired c newPrivate newPublic remote = (p, q)"
    and "(p, q) \<noteq> remote"
    and "ValidateClusterEndpointConfig p q \<noteq> Some ErrClusterEndpointNoAccess"
    and "Plan c"
  shows "doUpdateClusterEndpoints c ctl newPrivate newPublic remote =
           (None, remote,
            [InfoUsingRegion, InfoCurrentAccess (fst remote) (snd remote),
             LogIntendedAction True p q, ValidateCalled p q]
            @ (if p \<and> \<not> q then [LogWarning ErrClusterEndpointPrivateOnly] else [])
            @ [LogPlanModeWarning True])
         \<and> update_calls (snd (snd (doUpdateClusterEndpoints c ctl newPrivate newPublic remote))) = []"
  using assms by (cases remote) (auto simp: ep_defs split: if_splits)

theorem C4_witness:
  "current_state_loaded example_ctl
   \<and> resolveDesired (example_cmd True True False) True False (False, True) = (True, True)
   \<and> Plan (example_cmd True True False)
   \<and> doUpdateClusterEndpoints (example_cmd True True False) example_ctl True False (False, True) =
       (None, (False, True),
        [InfoUsingRegion, InfoCurrentAccess False True, LogIntendedAction True True True,
         ValidateCalled True True, LogPlanModeWarning True])"
proof -
  have h1: "current_state_loaded example_ctl" by (simp add: example_ep_defs)
  have h2: "resolveDesired (example_cmd True True False) True False (False, True) = (True, True)"
    by (simp add: example_ep_defs)
  have h3: "(True, True) \<noteq> (False, True)" by simp
  have h4: "ValidateClusterEndpointConfig True True \<noteq> Some ErrClusterEndpointNoAccess"
    by (simp add: ValidateClusterEndpointConfig_def)
  have h5: "Plan (example_cmd True True False)" by (simp add: example_cmd_def)
  show ?thesis
    using h1 h2 h5 C4_plan_mode_describes_and_does_not_mutate [OF h1 h2 h3 h4 h5] by simp
qed

text \<open>
  C5. Each field of the resolved desired state is the caller's value when its flag was
  given on the command line (the flag exists and is marked changed), also when that
  value is false, and the current value otherwise. The reconciler works with this state:
  once the current state is loaded, the change it announces is the resolved state (none
  when it equals the current one), and every call of the mutating API carries it.
\<close>

theorem C5_override_only_when_supplied:
  "resolveDesired c newPrivate newPublic (curPrivate, curPublic) =
     (if (\<exists>f. FlagSet c ''private-access'' = Some f \<and> Changed f) then newPrivate else curPrivate,
      if (\<exists>f. FlagSet c ''public-access'' = Some f \<and> Changed f) then newPublic else curPublic)
   \<and> (current_state_loaded ctl \<longrightarrow>
       intended_changes (snd (snd (doUpdateClusterEndpoints c ctl newPrivate newPublic (curPrivate, curPublic))))
         = (if resolveDesired c newPrivate newPublic (curPrivate, curPublic) = (curPrivate, curPublic) then []
            else [resolveDesired c newPrivate newPublic (curPrivate, curPublic)])
     \<and> set (update_calls (snd (snd (doUpdateClusterEndpoints c ctl newPrivate newPublic (curPrivate, curPublic)))))
         \<subseteq> {resolveDesired c newPrivate newPublic (curPrivate, curPublic)})"
proof -
  have a: "resolveDesired c newPrivate newPublic (curPrivate, curPublic) =
     (if (\<exists>f. FlagSet c ''private-access'' = Some f \<and> Changed f) then newPrivate else curPrivate,
      if (\<exists>f. FlagSet c ''public-access'' = Some f \<and> Changed f) then newPublic else curPublic)"
    by (auto simp: resolveDesired_def accessFlagsSet_def split: option.splits)
  obtain p q where pq: "resolveDesired c newPrivate newPublic (curPrivate, curPublic) = (p, q)"
    by (cases "resolveDesired c newPrivate newPublic (curPrivate, curPublic)")
  have b: "current_state_loaded ctl \<Longrightarrow>
       intended_changes (snd (snd (doUpdateClusterEndpoints c ctl newPrivate newPublic (curPrivate, curPublic))))
         = (if (p, q) = (curPrivate, curPublic) then [] else [(p, q)])
     \<and> set (update_calls (snd (snd (doUpdateClusterEndpoints c ctl newPrivate newPublic (curPrivate, curPublic)))))
         \<subseteq> {(p, q)}"
    using pq
    by (cases "Plan c"; cases "Update_error ctl"; cases p; cases q; cases curPrivate; cases curPublic)
       (simp_all add: ep_defs)
  show ?thesis using a b pq by simp
qed

theorem C5_witness:
  "current_state_loaded example_ctl
   \<and> resolveDesired (example_cmd False True False) True False (False, True) = (True, True)
   \<and> resolveDesired (example_cmd False False True) True False (False, True) = (False, False)
   \<and> intended_changes (snd (snd (doUpdateClusterEndpoints (example_cmd False True False)
        example_ctl True False (False, True)))) = [(True, True)]"
proof -
  have h1: "current_state_loaded example_ctl" by (simp add: example_ep_defs)
  have a: "resolveDesired (example_cmd False True False) True False (False, True) = (True, True)"
    using C5_override_only_when_supplied
            [of "example_cmd False True False" True False False True example_ctl, THEN conjunct1]
    by (simp add: example_cmd_def)
  have b: "resolveDesired (example_cmd False False True) True False (False, True) = (False, False)"
    using C5_override_only_when_supplied
            [of "example_cmd False False True" True False False True example_ctl, THEN conjunct1]
    by (simp add: example_cmd_def)
  have c: "intended_changes (snd (snd (doUpdateClusterEndpoints (example_cmd False True False)
        example_ctl True False (False, True)))) = [(True, True)]"
    using C5_override_only_when_supplied
            [of "example_cmd False True False" True False False True example_ctl,
             THEN conjunct2, THEN mp, OF h1, THEN conjunct1]
    by (simp only: a) simp
  show ?thesis using h1 a b c by (intro conjI)
qed

text \<open>
  C6. When the resolved desired state is private access only and differs from the
  current state, the validator answers with the private-only value, which the run logs
  as a warning and then goes on: in plan mode it ends without error and without a call
  of the mutating API; in apply mode it calls the mutating API with private access only,
  and returns what that call returns.
\<close>

theorem C6_private_only_warns_and_still_applies:
  assumes "current_state_loaded ctl"
    and "resolveDesired c newPrivate newPublic remote = (True, False)"
    and "remote \<noteq> (True, False)"
  shows "ValidateClusterEndpointConfig True False = Some ErrClusterEndpointPrivateOnly
       \<and> doUpdateClusterEndpoints c ctl newPrivate newPublic remote =
           (if Plan c then None else Update_error ctl,
            if Plan c \<or> Update_error ctl \<noteq> None then remote else (True, False),
            [InfoUsingRegion, InfoCurrentAccess (fst remote) (snd remote),
             LogIntendedAction (Plan c) True False, ValidateCalled True False,
             LogWarning ErrClusterEndpointPrivateOnly]
            @ (if Plan c then [LogPlanModeWarning True]
               else UpdateCalled True False #
                 (if Update_error ctl = None
                  then [LogCompletedAction False True False, LogPlanModeWarning False] else [])))"
  using assms by (cases remote) (auto simp: ep_defs split: option.splits)

theorem C6_witness:
  "current_state_loaded example_ctl
   \<and> resolveDesired (example_cmd False True True) True False (True, True) = (True, False)
   \<and> doUpdateClusterEndpoints (example_cmd False True True) example_ctl True False (True, True) =
       (None, (True, False),
        [InfoUsingRegion, InfoCurrentAccess True True, LogIntendedAction False True False,
         ValidateCalled True False, LogWarning ErrClusterEndpointPrivateOnly,
         UpdateCalled True False, LogCompletedAction False True False,
         LogPlanModeWarning False])"
proof -
  have h1: "current_state_loaded example_ctl" by (simp add: example_ep_defs)
  have h2: "resolveDesired (example_cmd False True True) True False (True, True) = (True, False)"
    by (simp add: example_ep_defs)
  have h3: "(True, True) \<noteq> (True, False)" by simp
  show ?thesis
    using h1 h2 C6_private_only_warns_and_still_applies [OF h1 h2 h3]
    by (simp add: example_cmd_def example_ctl_def)
qed

section \<open>Properties of the add-on reconciler\<close>

subsection \<open>Splitting and suffixes\<close>







subsection \<open>The loop and its trace\<close>

lemma apply_calls_append: "apply_calls (xs @ ys) = apply_calls xs @ apply_calls ys"
  by (induction xs rule: apply_calls.induct) auto

lemma UpdateAWSNode_items_append:
  "UpdateAWSNode_items env region plan (xs @ ys) tr =
     (case UpdateAWSNode_items env region plan xs tr of
        (Some out, tr') \<Rightarrow> (Some out, tr')
      | (None, tr') \<Rightarrow> UpdateAWSNode_items env region plan ys tr')"
  by (induction xs arbitrary: tr) (auto split: prod.splits option.splits)

lemma UpdateAWSNode_item_DaemonSet:
  assumes "NewRawResource env rawObj = Inr res" and "Kind res = ''DaemonSet''"
  shows "UpdateAWSNode_item env region plan rawObj tr =
     (case rewriteImage env region res of
        Inl out \<Rightarrow> (Some out, tr @ [NewRawResourceCalled rawObj])
      | Inr res' \<Rightarrow>
          (case CreateOrReplace env res' plan of
             Inl err \<Rightarrow> (Some (Return False (Some err)),
                         tr @ [NewRawResourceCalled rawObj, CreateOrReplaceCalled res' plan])
           | Inr status \<Rightarrow> (None, tr @ [NewRawResourceCalled rawObj,
                                         CreateOrReplaceCalled res' plan, LogInfo status])))"
proof -
  have k: "\<And>res'. rewriteImage env region res = Inr res' \<Longrightarrow> Kind res' = ''DaemonSet''"
    using assms(2)
    by (auto simp: rewriteImage_def Let_def split: runtime_object.splits list.splits if_splits)
  show ?thesis
    using assms k
    by (auto simp: UpdateAWSNode_item_def Let_def split: sum.splits)
qed



lemma item_no_index_panic:
  assumes "\<forall>res. NewRawResource env rawObj = Inr res \<longrightarrow> Kind res = ''DaemonSet''
             \<longrightarrow> Object res \<noteq> AppsV1DaemonSet []"
  shows "fst (UpdateAWSNode_item env region plan rawObj tr) \<noteq> Some (Panic IndexOutOfRange)"
  using assms
  by (auto simp: UpdateAWSNode_item_def rewriteImage_def Let_def
      split: sum.splits runtime_object.splits list.splits if_splits)

lemma items_no_index_panic:
  assumes "\<forall>rawObj \<in> set items. \<forall>res. NewRawResource env rawObj = Inr res \<longrightarrow>
             Kind res = ''DaemonSet'' \<longrightarrow> Object res \<noteq> AppsV1DaemonSet []"
  shows "fst (UpdateAWSNode_items env region plan items tr) \<noteq> Some (Panic IndexOutOfRange)"
  using assms
proof (induction items arbitrary: tr)
  case Nil
  then show ?case by simp
next
  case (Cons a items)
  have h: "fst (UpdateAWSNode_item env region plan a tr) \<noteq> Some (Panic IndexOutOfRange)"
    using Cons.prems by (intro item_no_index_panic) simp
  show ?case
  proof (cases "UpdateAWSNode_item env region plan a tr")
    case (Pair r tr')
    show ?thesis
    proof (cases r)
      case None
      with Pair Cons show ?thesis by simp
    next
      case (Some out)
      with Pair h show ?thesis by simp
    qed
  qed
qed

lemma item_apply_calls_prefix:
  "prefix (apply_calls tr) (apply_calls (snd (UpdateAWSNode_item env region plan rawObj tr)))"
  by (auto simp: UpdateAWSNode_item_def Let_def apply_calls_append split: sum.splits if_splits)

lemma items_apply_calls_prefix:
  "prefix (apply_calls tr) (apply_calls (snd (UpdateAWSNode_items env region plan items tr)))"
proof (induction items arbitrary: tr)
  case Nil
  show ?case by simp
next
  case (Cons a items)
  obtain r tr' where i: "UpdateAWSNode_item env region plan a tr = (r, tr')"
    by (cases "UpdateAWSNode_item env region plan a tr")
  have p: "prefix (apply_calls tr) (apply_calls tr')"
    using item_apply_calls_prefix [of tr env region plan a] i by simp
  show ?case
  proof (cases r)
    case None
    with i p Cons.IH [of tr'] show ?thesis by (auto intro: prefix_order.trans)
  next
    case (Some out)
    with i p show ?thesis by simp
  qed
qed

lemma apply_calls_finish:
  "apply_calls (snd (case r of
       (Some out, tr') \<Rightarrow> (out, tr')
     | (None, tr') \<Rightarrow> (Return False None, tr' @ [InfoNowUpToDate n])))
   = apply_calls (snd r)"
  by (cases r) (auto simp: apply_calls_append split: option.splits)

lemmas example_item_defs = UpdateAWSNode_item_def rewriteImage_def strings_HasSuffix_def
  awsNodeImageSuffix_def awsNodeImagePrefixPTN_def AWSNode_def
  example_env_def example_daemonset_def example_crd_def example_clusterrole_def

lemmas example_addon_defs = example_env_def example_daemonset_def example_crd_def

subsection \<open>The claims\<close>



text \<open>
  C8. For an item of kind \<open>CustomResourceDefinition\<close> that the loop of
  \<open>UpdateAWSNode\<close> reaches: in plan mode the run logs the skipped action, makes no call
  of create-or-replace for the item and goes on with the remaining items, ending as the
  rest of the loop ends; in apply mode it calls create-or-replace for the item with
  \<open>plan=false\<close>, ends with the error of that call if there is one, and goes on with
  the remaining items otherwise, so that the call is among the calls of the run. The
  same holds of the body of the loop at any trace.
\<close>

theorem C8_crd_skipped_only_in_plan_mode:
  assumes "NewRawResource env rawObj = Inr res"
    and "Kind res = ''CustomResourceDefinition''"
  shows "UpdateAWSNode_items env region True (rawObj # rest) tr =
           UpdateAWSNode_items env region True rest
             (tr @ [NewRawResourceCalled rawObj, LogInfo (LogAction env res True ''replaced'')])
       \<and> apply_calls (snd (UpdateAWSNode_item env region True rawObj tr)) = apply_calls tr
       \<and> UpdateAWSNode_item env region False rawObj tr =
           (case CreateOrReplace env res False of
              Inl err \<Rightarrow> (Some (Return False (Some err)),
                          tr @ [NewRawResourceCalled rawObj, CreateOrReplaceCalled res False])
            | Inr status \<Rightarrow> (None, tr @ [NewRawResourceCalled rawObj,
                                          CreateOrReplaceCalled res False, LogInfo status]))
       \<and> apply_calls (snd (UpdateAWSNode_item env region False rawObj tr)) =
           apply_calls tr @ [(res, False)]
       \<and> (Get_error env = None \<and> LoadAsset env = Inr (pre @ rawObj # rest) \<and>
          UpdateAWSNode_items env region True pre
            [GetDaemonSetCalled AWSNode, LoadAssetCalled AWSNode] = (None, tr) \<longrightarrow>
          UpdateAWSNode env region True =
            (case UpdateAWSNode_items env region True rest
                    (tr @ [NewRawResourceCalled rawObj,
                           LogInfo (LogAction env res True ''replaced'')]) of
               (Some out, tr') \<Rightarrow> (out, tr')
             | (None, tr') \<Rightarrow> (Return True None, tr' @ [CriticalNotUpToDate AWSNode])))
       \<and> (Get_error env = None \<and> LoadAsset env = Inr (pre @ rawObj # rest) \<and>
          UpdateAWSNode_items env region False pre
            [GetDaemonSetCalled AWSNode, LoadAssetCalled AWSNode] = (None, tr) \<longrightarrow>
          UpdateAWSNode env region False =
            (case CreateOrReplace env res False of
               Inl err \<Rightarrow> (Return False (Some err),
                           tr @ [NewRawResourceCalled rawObj, CreateOrReplaceCalled res False])
             | Inr status \<Rightarrow>
                 (case UpdateAWSNode_items env region False rest
                         (tr @ [NewRawResourceCalled rawObj, CreateOrReplaceCalled res False,
                                LogInfo status]) of
                    (Some out, tr') \<Rightarrow> (out, tr')
                  | (None, tr') \<Rightarrow> (Return False None, tr' @ [InfoNowUpToDate AWSNode])))
          \<and> (res, False) \<in> set (apply_calls (snd (UpdateAWSNode env region False))))"
proof -
  have item_plan: "UpdateAWSNode_item env region True rawObj t =
      (None, t @ [NewRawResourceCalled rawObj, LogInfo (LogAction env res True ''replaced'')])"
    for t
    using assms by (simp add: UpdateAWSNode_item_def)
  have item_apply: "UpdateAWSNode_item env region False rawObj t =
      (case CreateOrReplace env res False of
         Inl err \<Rightarrow> (Some (Return False (Some err)),
                     t @ [NewRawResourceCalled rawObj, CreateOrReplaceCalled res False])
       | Inr status \<Rightarrow> (None, t @ [NewRawResourceCalled rawObj,
                                     CreateOrReplaceCalled res False, LogInfo status]))"
    for t
    using assms by (simp add: UpdateAWSNode_item_def split: sum.splits)
  have loaded: "UpdateAWSNode env region pl =
      (case UpdateAWSNode_items env region pl (pre @ rawObj # rest)
              [GetDaemonSetCalled AWSNode, LoadAssetCalled AWSNode] of
         (Some out, tr') \<Rightarrow> (out, tr')
       | (None, tr') \<Rightarrow>
           if pl then (Return True None, tr' @ [CriticalNotUpToDate AWSNode])
           else (Return False None, tr' @ [InfoNowUpToDate AWSNode]))"
    if "Get_error env = None" and "LoadAsset env = Inr (pre @ rawObj # rest)" for pl
    using that by (simp add: UpdateAWSNode_def)
  show ?thesis
  proof (intro conjI impI)
    show "UpdateAWSNode_items env region True (rawObj # rest) tr =
             UpdateAWSNode_items env region True rest
               (tr @ [NewRawResourceCalled rawObj, LogInfo (LogAction env res True ''replaced'')])"
      by (simp add: item_plan)
    show "apply_calls (snd (UpdateAWSNode_item env region True rawObj tr)) = apply_calls tr"
      by (simp add: item_plan apply_calls_append)
    show "UpdateAWSNode_item env region False rawObj tr =
             (case CreateOrReplace env res False of
                Inl err \<Rightarrow> (Some (Return False (Some err)),
                            tr @ [NewRawResourceCalled rawObj, CreateOrReplaceCalled res False])
              | Inr status \<Rightarrow> (None, tr @ [NewRawResourceCalled rawObj,
                                            CreateOrReplaceCalled res False, LogInfo status]))"
      by (rule item_apply)
    show "apply_calls (snd (UpdateAWSNode_item env region False rawObj tr)) =
             apply_calls tr @ [(res, False)]"
      by (simp add: item_apply apply_calls_append split: sum.splits)
  next
    assume a: "Get_error env = None \<and> LoadAsset env = Inr (pre @ rawObj # rest) \<and>
            UpdateAWSNode_items env region True pre
              [GetDaemonSetCalled AWSNode, LoadAssetCalled AWSNode] = (None, tr)"
    then have g: "Get_error env = None" and l: "LoadAsset env = Inr (pre @ rawObj # rest)"
      by simp_all
    show "UpdateAWSNode env region True =
              (case UpdateAWSNode_items env region True rest
                      (tr @ [NewRawResourceCalled rawObj,
                             LogInfo (LogAction env res True ''replaced'')]) of
                 (Some out, tr') \<Rightarrow> (out, tr')
               | (None, tr') \<Rightarrow> (Return True None, tr' @ [CriticalNotUpToDate AWSNode]))"
      using a
      by (simp add: loaded [OF g l] UpdateAWSNode_items_append item_plan
          split: prod.splits option.splits)
  next
    assume a: "Get_error env = None \<and> LoadAsset env = Inr (pre @ rawObj # rest) \<and>
            UpdateAWSNode_items env region False pre
              [GetDaemonSetCalled AWSNode, LoadAssetCalled AWSNode] = (None, tr)"
    then have g: "Get_error env = None" and l: "LoadAsset env = Inr (pre @ rawObj # rest)"
      by simp_all
    show e: "UpdateAWSNode env region False =
              (case CreateOrReplace env res False of
                 Inl err \<Rightarrow> (Return False (Some err),
                             tr @ [NewRawResourceCalled rawObj, CreateOrReplaceCalled res False])
               | Inr status \<Rightarrow>
                   (case UpdateAWSNode_items env region False rest
                           (tr @ [NewRawResourceCalled rawObj, CreateOrReplaceCalled res False,
                                  LogInfo status]) of
                      (Some out, tr') \<Rightarrow> (out, tr')
                    | (None, tr') \<Rightarrow> (Return False None, tr' @ [InfoNowUpToDate AWSNode])))"
      using a
      by (simp add: loaded [OF g l] UpdateAWSNode_items_append item_apply
          split: sum.splits prod.splits option.splits)
    show "(res, False) \<in> set (apply_calls (snd (UpdateAWSNode env region False)))"
    proof (cases "CreateOrReplace env res False")
      case (Inl err)
      with e show ?thesis by (simp add: apply_calls_append)
    next
      case (Inr status)
      let ?t = "tr @ [NewRawResourceCalled rawObj, CreateOrReplaceCalled res False, LogInfo status]"
      have "prefix (apply_calls ?t)
              (apply_calls (snd (UpdateAWSNode_items env region False rest ?t)))"
        by (rule items_apply_calls_prefix)
      then have "set (apply_calls ?t)
              \<subseteq> set (apply_calls (snd (UpdateAWSNode_items env region False rest ?t)))"
        by (rule set_mono_prefix)
      moreover have "(res, False) \<in> set (apply_calls ?t)"
        by (simp add: apply_calls_append)
      ultimately have "(res, False)
              \<in> set (apply_calls (snd (UpdateAWSNode_items env region False rest ?t)))"
        by blast
      then show ?thesis
        unfolding e using Inr by (simp add: apply_calls_finish)
    qed
  qed
qed

theorem C8_witness:
  "UpdateAWSNode
     (example_env None [example_daemonset [''registry.local/cni:v1''], example_crd,
                        example_daemonset [''registry.local/cni:v1'']]) ''us-west-2'' True =
     (Return True None,
      [GetDaemonSetCalled ''aws-node'', LoadAssetCalled ''aws-node'',
       NewRawResourceCalled (example_daemonset [''registry.local/cni:v1'']),
       CreateOrReplaceCalled (example_daemonset [''registry.local/cni:v1'']) True,
       LogInfo ''would replace'',
       NewRawResourceCalled example_crd, LogInfo ''replaced'',
       NewRawResourceCalled (example_daemonset [''registry.local/cni:v1'']),
       CreateOrReplaceCalled (example_daemonset [''registry.local/cni:v1'']) True,
       LogInfo ''would replace'',
       CriticalNotUpToDate ''aws-node''])
   \<and> UpdateAWSNode
     (example_env None [example_daemonset [''registry.local/cni:v1''], example_crd,
                        example_daemonset [''registry.local/cni:v1'']]) ''us-west-2'' False =
     (Return False None,
      [GetDaemonSetCalled ''aws-node'', LoadAssetCalled ''aws-node'',
       NewRawResourceCalled (example_daemonset [''registry.local/cni:v1'']),
       CreateOrReplaceCalled (example_daemonset [''registry.local/cni:v1'']) False,
       LogInfo ''replaced'',
       NewRawResourceCalled example_crd, CreateOrReplaceCalled example_crd False,
       LogInfo ''replaced'',
       NewRawResourceCalled (example_daemonset [''registry.local/cni:v1'']),
       CreateOrReplaceCalled (example_daemonset [''registry.local/cni:v1'']) False,
       LogInfo ''replaced'',
       InfoNowUpToDate ''aws-node''])"
proof -
  let ?ds = "example_daemonset [''registry.local/cni:v1'']"
  let ?env = "example_env None [?ds, example_crd, ?ds]"
  have h1: "NewRawResource ?env example_crd = Inr example_crd"
    by (simp add: example_env_def)
  have h2: "Kind example_crd = ''CustomResourceDefinition''" by (simp add: example_crd_def)
  have ds: "UpdateAWSNode_items ?env ''us-west-2'' pl [?ds] tr =
              (None, tr @ [NewRawResourceCalled ?ds, CreateOrReplaceCalled ?ds pl,
                           LogInfo (if pl then ''would replace'' else ''replaced'')])" for pl tr
    by (cases pl) (simp_all add: example_item_defs)
  have hp: "Get_error ?env = None \<and> LoadAsset ?env = Inr ([?ds] @ example_crd # [?ds]) \<and>
            UpdateAWSNode_items ?env ''us-west-2'' True [?ds]
              [GetDaemonSetCalled AWSNode, LoadAssetCalled AWSNode] =
            (None, [GetDaemonSetCalled AWSNode, LoadAssetCalled AWSNode,
                    NewRawResourceCalled ?ds, CreateOrReplaceCalled ?ds True,
                    LogInfo ''would replace''])"
    using ds [of True "[GetDaemonSetCalled AWSNode, LoadAssetCalled AWSNode]"]
    by (simp add: example_env_def del: UpdateAWSNode_items.simps)
  have ha: "Get_error ?env = None \<and> LoadAsset ?env = Inr ([?ds] @ example_crd # [?ds]) \<and>
            UpdateAWSNode_items ?env ''us-west-2'' False [?ds]
              [GetDaemonSetCalled AWSNode, LoadAssetCalled AWSNode] =
            (None, [GetDaemonSetCalled AWSNode, LoadAssetCalled AWSNode,
                    NewRawResourceCalled ?ds, CreateOrReplaceCalled ?ds False,
                    LogInfo ''replaced''])"
    using ds [of False "[GetDaemonSetCalled AWSNode, LoadAssetCalled AWSNode]"]
    by (simp add: example_env_def del: UpdateAWSNode_items.simps)
  note t = C8_crd_skipped_only_in_plan_mode [OF h1 h2]
  have c: "CreateOrReplace ?env example_crd False = Inr ''replaced''"
    by (simp add: example_env_def)
  have l: "LogAction ?env example_crd True ''replaced'' = ''replaced''"
    by (simp add: example_env_def)
  have p: "UpdateAWSNode ?env ''us-west-2'' True =
     (Return True None,
      [GetDaemonSetCalled ''aws-node'', LoadAssetCalled ''aws-node'',
       NewRawResourceCalled ?ds, CreateOrReplaceCalled ?ds True, LogInfo ''would replace'',
       NewRawResourceCalled example_crd, LogInfo ''replaced'',
       NewRawResourceCalled ?ds, CreateOrReplaceCalled ?ds True, LogInfo ''would replace'',
       CriticalNotUpToDate ''aws-node''])"
    using t [THEN conjunct2, THEN conjunct2, THEN conjunct2, THEN conjunct2, THEN conjunct1,
             THEN mp, OF hp]
    by (simp add: ds l AWSNode_def del: UpdateAWSNode_items.simps)
  have a: "UpdateAWSNode ?env ''us-west-2'' False =
     (Return False None,
      [GetDaemonSetCalled ''aws-node'', LoadAssetCalled ''aws-node'',
       NewRawResourceCalled ?ds, CreateOrReplaceCalled ?ds False, LogInfo ''replaced'',
       NewRawResourceCalled example_crd, CreateOrReplaceCalled example_crd False,
       LogInfo ''replaced'',
       NewRawResourceCalled ?ds, CreateOrReplaceCalled ?ds False, LogInfo ''replaced'',
       InfoNowUpToDate ''aws-node''])"
    using t [THEN conjunct2, THEN conjunct2, THEN conjunct2, THEN conjunct2, THEN conjunct2,
             THEN mp, OF ha, THEN conjunct1]
    by (simp add: ds c AWSNode_def del: UpdateAWSNode_items.simps)
  show ?thesis using p a by (intro conjI)
qed

text \<open>
  C9. Whatever the region and the plan switch: when the get of the DaemonSet
  \<open>aws-node\<close> answers not found, \<open>UpdateAWSNode\<close> returns \<open>(false, nil)\<close> after
  a warning; the manifest is not loaded and create-or-replace is not called.
\<close>

theorem C9_not_installed:
  assumes "Get_error env = Some err" and "IsNotFound err"
  shows "UpdateAWSNode env region plan =
           (Return False None, [GetDaemonSetCalled ''aws-node'', WarningNotFound ''aws-node''])
       \<and> manifest_loads (snd (UpdateAWSNode env region plan)) = 0
       \<and> apply_calls (snd (UpdateAWSNode env region plan)) = []"
  using assms by (simp add: UpdateAWSNode_def AWSNode_def)

theorem C9_witness:
  "Get_error (example_env (Some (NotFoundError ''daemonsets.apps aws-node'')) []) =
     Some (NotFoundError ''daemonsets.apps aws-node'')
   \<and> IsNotFound (NotFoundError ''daemonsets.apps aws-node'')
   \<and> UpdateAWSNode (example_env (Some (NotFoundError ''daemonsets.apps aws-node'')) []) ''us-west-2'' True =
       (Return False None, [GetDaemonSetCalled ''aws-node'', WarningNotFound ''aws-node''])
   \<and> UpdateAWSNode (example_env (Some (NotFoundError ''daemonsets.apps aws-node'')) []) ''us-west-2'' False =
       (Return False None, [GetDaemonSetCalled ''aws-node'', WarningNotFound ''aws-node''])"
proof -
  have h1: "Get_error (example_env (Some (NotFoundError ''daemonsets.apps aws-node'')) []) =
     Some (NotFoundError ''daemonsets.apps aws-node'')"
    by (simp add: example_env_def)
  have h2: "IsNotFound (NotFoundError ''daemonsets.apps aws-node'')" by (simp add: IsNotFound_def)
  show ?thesis
    using h1 h2 C9_not_installed [OF h1 h2, of "''us-west-2''" True]
          C9_not_installed [OF h1 h2, of "''us-west-2''" False]
    by (intro conjI) blast+
qed

text \<open>
  C10. The first container of a DaemonSet item is read without a check of the length
  of the container list: when the loop reaches a DaemonSet item whose container list is
  empty, \<open>UpdateAWSNode\<close> ends in an index-out-of-range panic; when every DaemonSet
  item of the loaded manifest has at least one container, it does not.
\<close>

theorem C10_first_container_unchecked:
  assumes "Get_error env = None" and "LoadAsset env = Inr items"
  shows "(items = pre @ rawObj # rest \<and>
          fst (UpdateAWSNode_items env region plan pre
                 [GetDaemonSetCalled AWSNode, LoadAssetCalled AWSNode]) = None \<and>
          NewRawResource env rawObj = Inr res \<and> Kind res = ''DaemonSet'' \<and>
          Object res = AppsV1DaemonSet []
            \<longrightarrow> fst (UpdateAWSNode env region plan) = Panic IndexOutOfRange)
       \<and> ((\<forall>rawObj \<in> set items. \<forall>res. NewRawResource env rawObj = Inr res \<longrightarrow>
             Kind res = ''DaemonSet'' \<longrightarrow> Object res \<noteq> AppsV1DaemonSet [])
            \<longrightarrow> fst (UpdateAWSNode env region plan) \<noteq> Panic IndexOutOfRange)"
proof (intro conjI impI)
  assume a: "items = pre @ rawObj # rest \<and>
          fst (UpdateAWSNode_items env region plan pre
                 [GetDaemonSetCalled AWSNode, LoadAssetCalled AWSNode]) = None \<and>
          NewRawResource env rawObj = Inr res \<and> Kind res = ''DaemonSet'' \<and>
          Object res = AppsV1DaemonSet []"
  then obtain tr' where p: "UpdateAWSNode_items env region plan pre
                 [GetDaemonSetCalled AWSNode, LoadAssetCalled AWSNode] = (None, tr')"
    by (cases "UpdateAWSNode_items env region plan pre
                 [GetDaemonSetCalled AWSNode, LoadAssetCalled AWSNode]") auto
  have r: "rewriteImage env region res = Inl (Panic IndexOutOfRange)"
    using a by (simp add: rewriteImage_def)
  have i: "UpdateAWSNode_item env region plan rawObj tr' =
             (Some (Panic IndexOutOfRange), tr' @ [NewRawResourceCalled rawObj])"
    using a r by (simp add: UpdateAWSNode_item_DaemonSet)
  have "UpdateAWSNode_items env region plan items
          [GetDaemonSetCalled AWSNode, LoadAssetCalled AWSNode] =
          (Some (Panic IndexOutOfRange), tr' @ [NewRawResourceCalled rawObj])"
    using a p i by (simp add: UpdateAWSNode_items_append)
  then show "fst (UpdateAWSNode env region plan) = Panic IndexOutOfRange"
    using assms by (simp add: UpdateAWSNode_def)
next
  assume "\<forall>rawObj \<in> set items. \<forall>res. NewRawResource env rawObj = Inr res \<longrightarrow>
             Kind res = ''DaemonSet'' \<longrightarrow> Object res \<noteq> AppsV1DaemonSet []"
  from items_no_index_panic[OF this, of region plan "[GetDaemonSetCalled AWSNode, LoadAssetCalled AWSNode]"]
  show "fst (UpdateAWSNode env region plan) \<noteq> Panic IndexOutOfRange"
    using assms by (auto simp: UpdateAWSNode_def Let_def split: prod.splits option.splits)
qed

theorem C10_witness:
  "fst (UpdateAWSNode (example_env None [example_crd, example_daemonset []]) ''us-west-2'' False)
     = Panic IndexOutOfRange
   \<and> fst (UpdateAWSNode (example_env None [example_crd]) ''us-west-2'' False)
     \<noteq> Panic IndexOutOfRange"
proof -
  have g1: "Get_error (example_env None items) = None" for items
    by (simp add: example_env_def)
  have g2: "LoadAsset (example_env None items) = Inr items" for items
    by (simp add: example_env_def)
  have p: "[example_crd, example_daemonset []] = [example_crd] @ example_daemonset [] # []
     \<and> fst (UpdateAWSNode_items (example_env None [example_crd, example_daemonset []]) ''us-west-2'' False
              [example_crd] [GetDaemonSetCalled AWSNode, LoadAssetCalled AWSNode]) = None
     \<and> NewRawResource (example_env None [example_crd, example_daemonset []]) (example_daemonset [])
         = Inr (example_daemonset [])
     \<and> Kind (example_daemonset []) = ''DaemonSet''
     \<and> Object (example_daemonset []) = AppsV1DaemonSet []"
    by (simp add: UpdateAWSNode_item_def example_addon_defs)
  have q: "\<forall>rawObj \<in> set [example_crd]. \<forall>res.
             NewRawResource (example_env None [example_crd]) rawObj = Inr res \<longrightarrow>
             Kind res = ''DaemonSet'' \<longrightarrow> Object res \<noteq> AppsV1DaemonSet []"
    by (simp add: example_addon_defs)
  have a: "fst (UpdateAWSNode (example_env None [example_crd, example_daemonset []]) ''us-west-2'' False)
     = Panic IndexOutOfRange"
    by (rule C10_first_container_unchecked [OF g1 g2, THEN conjunct1, THEN mp, OF p])
  have b: "fst (UpdateAWSNode (example_env None [example_crd]) ''us-west-2'' False)
     \<noteq> Panic IndexOutOfRange"
    by (rule C10_first_container_unchecked [OF g1 g2, THEN conjunct2, THEN mp, OF q])
  show ?thesis using a b by (intro conjI)
qed

section \<open>Plan mode and apply mode\<close>

lemma resolveDesired_Plan_update:
  "resolveDesired (c\<lparr>Plan := pl\<rparr>) newPrivate newPublic remote
     = resolveDesired c newPrivate newPublic remote"
  by (simp add: resolveDesired_def accessFlagsSet_def)

text \<open>
  The verdicts of \<open>UpdateAWSNode\<close> in plan mode and in apply mode differ on the same
  cluster and manifest: with the add-on installed and a manifest of one item, the plan
  run returns \<open>true\<close> and the apply run returns \<open>false\<close>.
\<close>

theorem C2_counterexample:
  "fst (UpdateAWSNode (example_env None [example_crd]) ''us-west-2'' True) = Return True None
   \<and> fst (UpdateAWSNode (example_env None [example_crd]) ''us-west-2'' False) = Return False None
   \<and> fst (UpdateAWSNode (example_env None [example_crd]) ''us-west-2'' True)
       \<noteq> fst (UpdateAWSNode (example_env None [example_crd]) ''us-west-2'' False)"
  by (simp add: UpdateAWSNode_def UpdateAWSNode_item_def example_addon_defs)

text \<open>
  C2, amended. With the same current state and the same overrides, the plan run and the
  apply run of the endpoint reconciler announce the same intended change (none when the
  access is up to date) and return the same error whenever the mutating call of the
  apply run does not fail, because it succeeds or is not made; the plan run makes no
  call of the mutating API and leaves the remote state as it was, while the apply run,
  when the resolved state differs from the current one and is not rejected, calls the
  mutating API once, with the resolved state, which on success is the remote state. In
  \<open>UpdateAWSNode\<close> every call of create-or-replace carries the plan switch of the
  run, so the plan run performs no mutation, and an apply run that goes through all
  items calls create-or-replace once for each. The verdicts are not the same: a run that
  goes through all items returns the plan switch itself, \<open>true\<close> in plan mode and
  \<open>false\<close> in apply mode.
\<close>

theorem C2_plan_and_apply_verdicts:
  "intended_changes (snd (snd (doUpdateClusterEndpoints (c\<lparr>Plan := True\<rparr>) ctl newPrivate newPublic remote)))
     = intended_changes (snd (snd (doUpdateClusterEndpoints (c\<lparr>Plan := False\<rparr>) ctl newPrivate newPublic remote)))
   \<and> update_calls (snd (snd (doUpdateClusterEndpoints (c\<lparr>Plan := True\<rparr>) ctl newPrivate newPublic remote))) = []
   \<and> fst (snd (doUpdateClusterEndpoints (c\<lparr>Plan := True\<rparr>) ctl newPrivate newPublic remote)) = remote
   \<and> (Update_error ctl = None
        \<or> update_calls (snd (snd (doUpdateClusterEndpoints (c\<lparr>Plan := False\<rparr>) ctl newPrivate newPublic remote))) = []
       \<longrightarrow>
        fst (doUpdateClusterEndpoints (c\<lparr>Plan := True\<rparr>) ctl newPrivate newPublic remote)
          = fst (doUpdateClusterEndpoints (c\<lparr>Plan := False\<rparr>) ctl newPrivate newPublic remote))
   \<and> (current_state_loaded ctl \<and> resolveDesired c newPrivate newPublic remote = (p, q) \<and>
       (p, q) \<noteq> remote \<and> ValidateClusterEndpointConfig p q \<noteq> Some ErrClusterEndpointNoAccess
       \<longrightarrow>
        update_calls (snd (snd (doUpdateClusterEndpoints (c\<lparr>Plan := False\<rparr>) ctl newPrivate newPublic remote)))
          = [(p, q)]
        \<and> (Update_error ctl = None \<longrightarrow>
             fst (snd (doUpdateClusterEndpoints (c\<lparr>Plan := False\<rparr>) ctl newPrivate newPublic remote)) = (p, q)))
   \<and> snd ` set (apply_calls (snd (UpdateAWSNode env region plan))) \<subseteq> {plan}
   \<and> (Get_error env = None \<and> LoadAsset env = Inr items \<and>
        fst (UpdateAWSNode_items env region plan items
               [GetDaemonSetCalled AWSNode, LoadAssetCalled AWSNode]) = None \<longrightarrow>
        fst (UpdateAWSNode env region plan) = Return plan None
        \<and> (\<not> plan \<longrightarrow> length (apply_calls (snd (UpdateAWSNode env region plan))) = length items))"
proof -
  have item_flag: "snd ` set (apply_calls (snd (UpdateAWSNode_item env region plan rawObj tr)))
                     \<subseteq> {plan}"
    if "snd ` set (apply_calls tr) \<subseteq> {plan}" for rawObj tr
    using that
    by (auto simp: UpdateAWSNode_item_def Let_def apply_calls_append split: sum.splits if_splits)
  have loop_flag: "snd ` set (apply_calls (snd (UpdateAWSNode_items env region plan xs tr)))
                     \<subseteq> {plan}"
    if "snd ` set (apply_calls tr) \<subseteq> {plan}" for xs tr
    using that
  proof (induction xs arbitrary: tr)
    case Nil
    then show ?case by simp
  next
    case (Cons a xs)
    obtain r tr' where i: "UpdateAWSNode_item env region plan a tr = (r, tr')"
      by (cases "UpdateAWSNode_item env region plan a tr")
    have f: "snd ` set (apply_calls tr') \<subseteq> {plan}"
      using item_flag [OF Cons.prems, of a] i by simp
    show ?case
    proof (cases r)
      case None
      with i Cons.IH [OF f] show ?thesis by simp
    next
      case (Some out)
      with i f show ?thesis by simp
    qed
  qed
  have flag: "snd ` set (apply_calls (snd (UpdateAWSNode env region plan))) \<subseteq> {plan}"
  proof (cases "Get_error env")
    case (Some err)
    then show ?thesis by (simp add: UpdateAWSNode_def Let_def)
  next
    case None
    show ?thesis
    proof (cases "LoadAsset env")
      case (Inl err)
      with None show ?thesis by (simp add: UpdateAWSNode_def Let_def)
    next
      case (Inr xs)
      obtain r tr' where l: "UpdateAWSNode_items env region plan xs
            [GetDaemonSetCalled AWSNode, LoadAssetCalled AWSNode] = (r, tr')"
        by (cases "UpdateAWSNode_items env region plan xs
            [GetDaemonSetCalled AWSNode, LoadAssetCalled AWSNode]")
      have "snd ` set (apply_calls (snd (UpdateAWSNode_items env region plan xs
            [GetDaemonSetCalled AWSNode, LoadAssetCalled AWSNode]))) \<subseteq> {plan}"
        by (rule loop_flag) simp
      then have f: "snd ` set (apply_calls tr') \<subseteq> {plan}" using l by simp
      show ?thesis
        using None Inr l f
        by (cases r; cases plan) (simp_all add: UpdateAWSNode_def Let_def apply_calls_append)
    qed
  qed
  have item_length: "length (apply_calls (snd (UpdateAWSNode_item env region False rawObj tr)))
                       = Suc (length (apply_calls tr))"
    if "fst (UpdateAWSNode_item env region False rawObj tr) = None" for rawObj tr
    using that
    by (auto simp: UpdateAWSNode_item_def Let_def apply_calls_append split: sum.splits if_splits)
  have loop_length: "length (apply_calls (snd (UpdateAWSNode_items env region False xs tr)))
                       = length (apply_calls tr) + length xs"
    if "fst (UpdateAWSNode_items env region False xs tr) = None" for xs tr
    using that
  proof (induction xs arbitrary: tr)
    case Nil
    then show ?case by simp
  next
    case (Cons a xs)
    obtain r tr' where i: "UpdateAWSNode_item env region False a tr = (r, tr')"
      by (cases "UpdateAWSNode_item env region False a tr")
    show ?case
    proof (cases r)
      case None
      have n: "length (apply_calls tr') = Suc (length (apply_calls tr))"
        using item_length [of a tr] i None by simp
      have "fst (UpdateAWSNode_items env region False xs tr') = None"
        using Cons.prems i None by simp
      from Cons.IH [OF this] n i None show ?thesis by simp
    next
      case (Some out)
      with i Cons.prems show ?thesis by simp
    qed
  qed
  have l: "Get_error env = None \<and> LoadAsset env = Inr items \<and>
        fst (UpdateAWSNode_items env region plan items
               [GetDaemonSetCalled AWSNode, LoadAssetCalled AWSNode]) = None \<longrightarrow>
        fst (UpdateAWSNode env region plan) = Return plan None
        \<and> (\<not> plan \<longrightarrow> length (apply_calls (snd (UpdateAWSNode env region plan))) = length items)"
  proof (intro impI)
    assume a: "Get_error env = None \<and> LoadAsset env = Inr items \<and>
        fst (UpdateAWSNode_items env region plan items
               [GetDaemonSetCalled AWSNode, LoadAssetCalled AWSNode]) = None"
    then obtain tr' where i: "UpdateAWSNode_items env region plan items
               [GetDaemonSetCalled AWSNode, LoadAssetCalled AWSNode] = (None, tr')"
      by (cases "UpdateAWSNode_items env region plan items
               [GetDaemonSetCalled AWSNode, LoadAssetCalled AWSNode]") auto
    have u: "UpdateAWSNode env region plan =
               (if plan then (Return True None, tr' @ [CriticalNotUpToDate AWSNode])
                else (Return False None, tr' @ [InfoNowUpToDate AWSNode]))"
      using a i by (simp add: UpdateAWSNode_def)
    have n: "\<not> plan \<Longrightarrow> length (apply_calls tr') = length items"
      using loop_length [of items "[GetDaemonSetCalled AWSNode, LoadAssetCalled AWSNode]"] i
      by simp
    show "fst (UpdateAWSNode env region plan) = Return plan None
        \<and> (\<not> plan \<longrightarrow> length (apply_calls (snd (UpdateAWSNode env region plan))) = length items)"
      using u n by (cases plan) (simp_all add: apply_calls_append)
  qed
  obtain p' q' where pq: "resolveDesired c newPrivate newPublic remote = (p', q')"
    by (cases "resolveDesired c newPrivate newPublic remote")
  obtain cp cq where rem: "remote = (cp, cq)" by (cases remote)
  have parity:
    "intended_changes (snd (snd (doUpdateClusterEndpoints (c\<lparr>Plan := True\<rparr>) ctl newPrivate newPublic remote)))
       = intended_changes (snd (snd (doUpdateClusterEndpoints (c\<lparr>Plan := False\<rparr>) ctl newPrivate newPublic remote)))
     \<and> update_calls (snd (snd (doUpdateClusterEndpoints (c\<lparr>Plan := True\<rparr>) ctl newPrivate newPublic remote))) = []
     \<and> fst (snd (doUpdateClusterEndpoints (c\<lparr>Plan := True\<rparr>) ctl newPrivate newPublic remote)) = remote
     \<and> (Update_error ctl = None
          \<or> update_calls (snd (snd (doUpdateClusterEndpoints (c\<lparr>Plan := False\<rparr>) ctl newPrivate newPublic remote))) = []
         \<longrightarrow>
          fst (doUpdateClusterEndpoints (c\<lparr>Plan := True\<rparr>) ctl newPrivate newPublic remote)
            = fst (doUpdateClusterEndpoints (c\<lparr>Plan := False\<rparr>) ctl newPrivate newPublic remote))"
    using pq rem
    by (cases "Load_result ctl"; cases "NewCtl_result ctl"; cases "CheckAuth_result ctl";
        cases "fst (CanUpdate_result ctl)"; cases "GetCurrent_error ctl";
        cases "Update_error ctl"; cases p'; cases q'; cases cp; cases cq)
       (simp_all add: doUpdateClusterEndpoints_def ValidateClusterEndpointConfig_def
          resolveDesired_Plan_update)
  have mutates:
    "update_calls (snd (snd (doUpdateClusterEndpoints (c\<lparr>Plan := False\<rparr>) ctl newPrivate newPublic remote)))
       = [(p, q)]
     \<and> (Update_error ctl = None \<longrightarrow>
          fst (snd (doUpdateClusterEndpoints (c\<lparr>Plan := False\<rparr>) ctl newPrivate newPublic remote)) = (p, q))"
    if "current_state_loaded ctl \<and> resolveDesired c newPrivate newPublic remote = (p, q) \<and>
        (p, q) \<noteq> remote \<and> ValidateClusterEndpointConfig p q \<noteq> Some ErrClusterEndpointNoAccess"
    using that
    by (cases remote; cases "Update_error ctl"; cases p; cases q)
       (auto simp: ep_defs resolveDesired_Plan_update)
  show ?thesis
    using parity mutates flag l by blast
qed

theorem C2_witness:
  "current_state_loaded example_ctl
   \<and> Update_error example_ctl = None
   \<and> resolveDesired (example_cmd False True False) True False (False, True) = (True, True)
   \<and> fst (doUpdateClusterEndpoints ((example_cmd False True False)\<lparr>Plan := True\<rparr>) example_ctl True False (False, True))
       = fst (doUpdateClusterEndpoints ((example_cmd False True False)\<lparr>Plan := False\<rparr>) example_ctl True False (False, True))
   \<and> update_calls (snd (snd (doUpdateClusterEndpoints ((example_cmd False True False)\<lparr>Plan := False\<rparr>) example_ctl True False (False, True))))
       = [(True, True)]
   \<and> fst (snd (doUpdateClusterEndpoints ((example_cmd False True False)\<lparr>Plan := False\<rparr>) example_ctl True False (False, True)))
       = (True, True)
   \<and> apply_calls (snd (UpdateAWSNode
        (example_env None [example_crd, example_clusterrole, example_daemonset [''registry.local/cni:v1'']]) ''us-west-2'' True))
       = [(example_clusterrole, True), (example_daemonset [''registry.local/cni:v1''], True)]
   \<and> snd ` set (apply_calls (snd (UpdateAWSNode
        (example_env None [example_crd, example_clusterrole, example_daemonset [''registry.local/cni:v1'']]) ''us-west-2'' True)))
       \<subseteq> {True}
   \<and> fst (UpdateAWSNode
        (example_env None [example_crd, example_clusterrole, example_daemonset [''registry.local/cni:v1'']]) ''us-west-2'' True)
       = Return True None
   \<and> fst (UpdateAWSNode
        (example_env None [example_crd, example_clusterrole, example_daemonset [''registry.local/cni:v1'']]) ''us-west-2'' False)
       = Return False None
   \<and> length (apply_calls (snd (UpdateAWSNode
        (example_env None [example_crd, example_clusterrole, example_daemonset [''registry.local/cni:v1'']]) ''us-west-2'' False)))
       = 3"
proof -
  let ?items = "[example_crd, example_clusterrole, example_daemonset [''registry.local/cni:v1'']]"
  let ?env = "example_env None ?items"
  have h1: "current_state_loaded example_ctl" by (simp add: example_ep_defs)
  have u: "Update_error example_ctl = None" by (simp add: example_ctl_def)
  have h2: "resolveDesired (example_cmd False True False) True False (False, True) = (True, True)"
    by (simp add: example_ep_defs)
  have h3: "(True, True) \<noteq> (False, True)" by simp
  have h4: "ValidateClusterEndpointConfig True True \<noteq> Some ErrClusterEndpointNoAccess"
    by (simp add: ValidateClusterEndpointConfig_def)
  have g: "Get_error ?env = None \<and> LoadAsset ?env = Inr ?items
           \<and> fst (UpdateAWSNode_items ?env ''us-west-2'' pl ?items
                    [GetDaemonSetCalled AWSNode, LoadAssetCalled AWSNode]) = None" for pl
    by (cases pl) (simp_all add: example_item_defs)
  have ac: "apply_calls (snd (UpdateAWSNode ?env ''us-west-2'' True))
              = [(example_clusterrole, True), (example_daemonset [''registry.local/cni:v1''], True)]"
    by (simp add: UpdateAWSNode_def example_item_defs)
  note t = C2_plan_and_apply_verdicts [of "example_cmd False True False" example_ctl True False "(False, True)"
                   True True ?env "''us-west-2''" _ ?items]
  have e: "fst (doUpdateClusterEndpoints ((example_cmd False True False)\<lparr>Plan := True\<rparr>) example_ctl True False (False, True))
       = fst (doUpdateClusterEndpoints ((example_cmd False True False)\<lparr>Plan := False\<rparr>) example_ctl True False (False, True))"
    using t [of True] u by blast
  have m: "update_calls (snd (snd (doUpdateClusterEndpoints ((example_cmd False True False)\<lparr>Plan := False\<rparr>) example_ctl True False (False, True))))
       = [(True, True)]
     \<and> fst (snd (doUpdateClusterEndpoints ((example_cmd False True False)\<lparr>Plan := False\<rparr>) example_ctl True False (False, True)))
       = (True, True)"
    using t [of True] h1 h2 h3 h4 u by blast
  have f: "snd ` set (apply_calls (snd (UpdateAWSNode ?env ''us-west-2'' True))) \<subseteq> {True}"
    using t [of True] by blast
  have a1: "fst (UpdateAWSNode ?env ''us-west-2'' True) = Return True None"
    using t [of True] g [of True] by blast
  have a2: "fst (UpdateAWSNode ?env ''us-west-2'' False) = Return False None
            \<and> length (apply_calls (snd (UpdateAWSNode ?env ''us-west-2'' False))) = length ?items"
    using t [of False] g [of False] by blast
  show ?thesis using h1 u h2 e m ac f a1 a2 by simp
qed

end
